theory Spec2Isabelle
  imports Main "HOL-Library.Multiset" "HOL-Library.Product_Lexorder" "HOL-Library.Log_Nat"
begin

section \<open>Data model\<close>

text \<open>
  The program is one Python file, \<^verbatim>\<open>currency_parser.py\<close>. Its functions are embedded one
  by one, keeping their names and the order of their statements. An exception is a value
  of \<open>exn\<close>; a function that can let an exception escape returns \<open>exn + 'a\<close>. Everything
  the program does to the outside (printing, the HTTP request, the two files it writes) is
  an \<open>event\<close>, and every function returns the list of events it caused next to its result.
\<close>

datatype exn =
    OverflowError | RequestException | HTTPError | ParseError
  | AttributeError | TypeError | ValueError | KeyError | SystemExit

text \<open>
  A calendar date is (year, month, day), compared lexicographically, which is the order of
  Python's \<^verbatim>\<open>datetime\<close> on values whose time of day is midnight (all that
  \<^verbatim>\<open>strptime(s, '%d.%m.%Y')\<close> yields).
\<close>

type_synonym date = "nat \<times> nat \<times> nat"

text \<open>
  A rate is a Python \<^verbatim>\<open>float\<close>. Finite floats are rational numbers, and the model keeps
  them as such; arithmetic rounds its exact result to 53 significant bits, ties to even
  (\<open>binary64\<close> below). The exponent is not bounded and \<^verbatim>\<open>inf\<close>/\<^verbatim>\<open>nan\<close> are not
  values of the model.
\<close>

type_synonym rate = rat

record rate_record =
  date :: date
  rate :: rate

text \<open>
  A \<^verbatim>\<open>pandas.DataFrame\<close> as this program builds it: \<^verbatim>\<open>pd.DataFrame([])\<close> has no
  columns at all, \<^verbatim>\<open>pd.DataFrame(data)\<close> for a non-empty list of \<^verbatim>\<open>{'date', 'rate'}\<close>
  dictionaries has these two columns and one row per dictionary. \<open>Frame []\<close> is the frame
  with both columns and no row.
\<close>

datatype dataframe = NoColumns | Frame "rate_record list"

fun empty_df :: "dataframe \<Rightarrow> bool" where
  "empty_df NoColumns = True"
| "empty_df (Frame rows) = (rows = [])"

fun len_df :: "dataframe \<Rightarrow> nat" where
  "len_df NoColumns = 0"
| "len_df (Frame rows) = length rows"

definition DataFrame :: "rate_record list \<Rightarrow> dataframe" where
  "DataFrame data = (if data = [] then NoColumns else Frame data)"

text \<open>An element of \<^verbatim>\<open>xml.etree.ElementTree\<close>: tag, attributes, text, children.\<close>

datatype element =
  Element (tag: string) (attrib: "(string \<times> string) list") (elem_text: "string option")
    (children: "element list")

definition findall :: "string \<Rightarrow> element \<Rightarrow> element list" where
  "findall path e = filter (\<lambda>c. tag c = path) (children e)"

definition find_child :: "string \<Rightarrow> element \<Rightarrow> element option" where
  "find_child path e = List.find (\<lambda>c. tag c = path) (children e)"

definition get_attr :: "element \<Rightarrow> string \<Rightarrow> string option" where
  "get_attr e key = map_of (attrib e) key"

definition replace_comma :: "string \<Rightarrow> string" where
  "replace_comma s = map (\<lambda>c. if c = CHR '','' then CHR ''.'' else c) s"

text \<open>
  The response of \<^verbatim>\<open>requests.get\<close>: the status code, and the document that
  \<^verbatim>\<open>ET.fromstring\<close> makes of the body (\<open>None\<close> when the body is not well-formed XML and
  \<^verbatim>\<open>fromstring\<close> raises).
\<close>

record response =
  status_code :: nat
  document :: "element option"

record params =
  date_req1 :: string
  date_req2 :: string
  VAL_NM_RQ :: string

text \<open>
  What the program takes from its libraries and from the world. \<open>now\<close> is the proleptic
  Gregorian ordinal of \<^verbatim>\<open>datetime.now()\<close> (the time of day plays no part: only whole days
  are subtracted and \<^verbatim>\<open>strftime('%d/%m/%Y')\<close> drops it). \<open>strptime\<close> and \<open>float_of\<close>
  are \<^verbatim>\<open>datetime.strptime(s, '%d.%m.%Y')\<close> and \<^verbatim>\<open>float(s)\<close>, \<open>None\<close> where they raise
  \<^verbatim>\<open>ValueError\<close>. \<open>sort_by_date\<close> is the reordering of the rows that
  \<^verbatim>\<open>sort_values('date')\<close> performs with pandas' default \<^verbatim>\<open>kind='quicksort'\<close>.
\<close>

record pyenv =
  now :: int
  strftime :: "int \<Rightarrow> string"
  requests_get :: "params \<Rightarrow> exn + response"
  strptime :: "string \<Rightarrow> date option"
  float_of :: "string \<Rightarrow> rate option"
  sort_by_date :: "rate_record list \<Rightarrow> rate_record list"

text \<open>
  Messages of \<^verbatim>\<open>print\<close>, one constructor per call in the source, carrying the values
  that the f-string formats (the formatting itself is not modelled).
\<close>

datatype message =
    Requesting string string
  | Received nat
  | FetchFailed exn
  | ChartSaved string
  | NoData
  | AnalysisHeader
  | Period date date
  | PointCount nat
  | MinRate rate
  | MaxRate rate
  | MeanRate rate
  | LastRate rate
  | Change rate "rate option"
  | Analysing string int
  | CsvSaved string
  | NoDataReceived
  | Banner
  | Separator

record figure =
  title_name :: string
  title_from :: date
  title_to :: date
  points :: "rate_record list"
  annotation :: rate_record

datatype event =
    Print message
  | HttpGet params
  | SaveFig string figure
  | ToCsv string dataframe

section \<open>get_currency_rate\<close>

definition timedelta :: "int \<Rightarrow> exn + int" where
  "timedelta days = (if \<bar>days\<bar> > 999999999 then Inl OverflowError else Inr days)"

definition MAXORDINAL :: int where
  "MAXORDINAL = 3652059"

definition datetime_sub :: "int \<Rightarrow> int \<Rightarrow> exn + int" where
  "datetime_sub d delta =
     (let r = d - delta in if 0 < r \<and> r \<le> MAXORDINAL then Inr r else Inl OverflowError)"

definition request_params :: "pyenv \<Rightarrow> string \<Rightarrow> int \<Rightarrow> params" where
  "request_params env currency_code start_date =
     \<lparr>date_req1 = strftime env start_date, date_req2 = strftime env (now env),
      VAL_NM_RQ = currency_code\<rparr>"

definition raise_for_status :: "response \<Rightarrow> exn + unit" where
  "raise_for_status r =
     (if 400 \<le> status_code r \<and> status_code r < 600 then Inl HTTPError else Inr ())"

text \<open>The body of the \<^verbatim>\<open>for record in root.findall('Record')\<close> loop (lines 45 to 50).\<close>

definition parse_record :: "pyenv \<Rightarrow> element \<Rightarrow> exn + rate_record" where
  "parse_record env record =
     (let d = get_attr record ''Date'' in
      case find_child ''Value'' record of
        None \<Rightarrow> Inl AttributeError
      | Some v \<Rightarrow>
          (case elem_text v of
             None \<Rightarrow> Inl AttributeError
           | Some t \<Rightarrow>
               (let r = replace_comma t in
                case d of
                  None \<Rightarrow> Inl TypeError
                | Some ds \<Rightarrow>
                    (case strptime env ds of
                       None \<Rightarrow> Inl ValueError
                     | Some dt \<Rightarrow>
                         (case float_of env r of
                            None \<Rightarrow> Inl ValueError
                          | Some x \<Rightarrow> Inr \<lparr>date = dt, rate = x\<rparr>)))))"

fun parse_records :: "pyenv \<Rightarrow> element list \<Rightarrow> rate_record list \<Rightarrow> exn + rate_record list" where
  "parse_records env [] data = Inr data"
| "parse_records env (r # rs) data =
     (case parse_record env r of
        Inl e \<Rightarrow> Inl e
      | Inr x \<Rightarrow> parse_records env rs (data @ [x]))"

definition sort_values :: "pyenv \<Rightarrow> dataframe \<Rightarrow> exn + dataframe" where
  "sort_values env df =
     (case df of
        NoColumns \<Rightarrow> Inl KeyError
      | Frame rows \<Rightarrow> Inr (Frame (sort_by_date env rows)))"

text \<open>Lines 41 to 53: from \<^verbatim>\<open>ET.fromstring\<close> to the sorted frame.\<close>

definition parse :: "pyenv \<Rightarrow> element option \<Rightarrow> exn + dataframe" where
  "parse env doc =
     (case doc of
        None \<Rightarrow> Inl ParseError
      | Some root_el \<Rightarrow>
          (case parse_records env (findall ''Record'' root_el) [] of
             Inl e \<Rightarrow> Inl e
           | Inr data \<Rightarrow> sort_values env (DataFrame data)))"

text \<open>The \<^verbatim>\<open>try\<close> block after its first \<^verbatim>\<open>print\<close> (lines 36 to 53).\<close>

definition fetch_and_parse :: "pyenv \<Rightarrow> params \<Rightarrow> exn + dataframe" where
  "fetch_and_parse env ps =
     (case requests_get env ps of
        Inl e \<Rightarrow> Inl e
      | Inr resp \<Rightarrow>
          (case raise_for_status resp of
             Inl e \<Rightarrow> Inl e
           | Inr _ \<Rightarrow> parse env (document resp)))"

text \<open>
  \<^verbatim>\<open>get_currency_rate\<close>. The two date computations stand before the \<^verbatim>\<open>try\<close>, so
  their \<^verbatim>\<open>OverflowError\<close> escapes; every exception inside the \<^verbatim>\<open>try\<close> is caught,
  printed, and turned into \<^verbatim>\<open>None\<close>.
\<close>

definition get_currency_rate ::
  "pyenv \<Rightarrow> string \<Rightarrow> int \<Rightarrow> (exn + dataframe option) \<times> event list" where
  "get_currency_rate env currency_code days =
     (case timedelta days of
        Inl e \<Rightarrow> (Inl e, [])
      | Inr delta \<Rightarrow>
          (case datetime_sub (now env) delta of
             Inl e \<Rightarrow> (Inl e, [])
           | Inr start_date \<Rightarrow>
               (let ps = request_params env currency_code start_date;
                    evs = [Print (Requesting (date_req1 ps) (date_req2 ps)), HttpGet ps]
                in case fetch_and_parse env ps of
                     Inl e \<Rightarrow> (Inr None, evs @ [Print (FetchFailed e)])
                   | Inr df \<Rightarrow> (Inr (Some df), evs @ [Print (Received (len_df df))]))))"

section \<open>Floating-point arithmetic\<close>

text \<open>
  Rounding of an exact result to the nearest number with 53 significant bits, ties to the
  even significand: what IEEE 754 binary64 arithmetic does on every operation whose result
  is in the normal range.
\<close>

definition round_half_even :: "rat \<Rightarrow> int" where
  "round_half_even q =
     (let f = \<lfloor>q\<rfloor>; r = q - of_int f
      in if r < 1 / 2 then f else if 1 / 2 < r then f + 1 else if even f then f else f + 1)"

definition pow2 :: "int \<Rightarrow> rat" where
  "pow2 e = (if 0 \<le> e then 2 ^ nat e else 1 / 2 ^ nat (- e))"

definition floor_log2 :: "rat \<Rightarrow> int" where
  "floor_log2 q = (if 1 \<le> q then bitlen \<lfloor>q\<rfloor> - 1 else - bitlen (\<lceil>1 / q\<rceil> - 1))"

definition binary64 :: "rat \<Rightarrow> rate" where
  "binary64 q =
     (if q = 0 then 0
      else let e = floor_log2 \<bar>q\<bar> - 52
           in sgn q * of_int (round_half_even (\<bar>q\<bar> / pow2 e)) * pow2 e)"

definition fadd :: "rate \<Rightarrow> rate \<Rightarrow> rate" where
  "fadd x y = binary64 (x + y)"

definition fsub :: "rate \<Rightarrow> rate \<Rightarrow> rate" where
  "fsub x y = binary64 (x - y)"

definition fmul :: "rate \<Rightarrow> rate \<Rightarrow> rate" where
  "fmul x y = binary64 (x * y)"

text \<open>
  Division of numpy's \<^verbatim>\<open>float64\<close>: a zero divisor raises nothing and gives
  \<^verbatim>\<open>inf\<close> or \<^verbatim>\<open>nan\<close>, which the model has no value for; that outcome is \<open>None\<close>.
\<close>

definition fdiv :: "rate \<Rightarrow> rate \<Rightarrow> rate option" where
  "fdiv x y = (if y = 0 then None else Some (binary64 (x / y)))"

section \<open>plot_currency_rate\<close>



section \<open>analyze_currency_data\<close>

text \<open>
  The function returns \<^verbatim>\<open>None\<close> on every path; what it computes is what it prints. The
  sum behind \<^verbatim>\<open>mean()\<close> is taken from left to right.
\<close>

definition analyze_currency_data :: "dataframe option \<Rightarrow> event list" where
  "analyze_currency_data df =
     (case df of
        None \<Rightarrow> [Print NoData]
      | Some NoColumns \<Rightarrow> [Print NoData]
      | Some (Frame []) \<Rightarrow> [Print NoData]
      | Some (Frame (r # rs)) \<Rightarrow>
          (let rates = map rate (r # rs);
               first_rate = rate r;
               last_rate = last rates;
               change = fsub last_rate first_rate;
               change_percent = map_option (\<lambda>q. fmul q 100) (fdiv change first_rate)
           in [Print AnalysisHeader,
               Print (Period (fold min (map date rs) (date r)) (fold max (map date rs) (date r))),
               Print (PointCount (length (r # rs))),
               Print (MinRate (fold min (map rate rs) (rate r))),
               Print (MaxRate (fold max (map rate rs) (rate r))),
               Print (MeanRate (binary64 (fold (\<lambda>x s. fadd s x) (map rate rs) (rate r)
                                          / of_nat (length (r # rs))))),
               Print (LastRate last_rate),
               Print (Change change change_percent)]))"

section \<open>main and the script body\<close>


text \<open>
  The arguments as \<^verbatim>\<open>argparse\<close> hands them over: \<^verbatim>\<open>--days\<close> has \<^verbatim>\<open>type=int\<close>, so
  any integer arrives. The \<^verbatim>\<open>choices\<close> of \<^verbatim>\<open>--currency\<close> make the parser exit on any
  other symbol.
\<close>

record args =
  currency :: string
  days :: int
  output_path :: string





section \<open>Predicates of the specification\<close>

text \<open>
  A record element is well formed when every step of the loop body passes on it: it has a
  \<^verbatim>\<open>Date\<close> attribute that \<^verbatim>\<open>strptime\<close> accepts and a \<^verbatim>\<open>Value\<close> child whose text,
  with the comma replaced, \<^verbatim>\<open>float\<close> accepts.
\<close>

definition well_formed_record :: "pyenv \<Rightarrow> element \<Rightarrow> bool" where
  "well_formed_record env r =
     (case (get_attr r ''Date'', find_child ''Value'' r) of
        (Some ds, Some v) \<Rightarrow>
          (case elem_text v of
             None \<Rightarrow> False
           | Some t \<Rightarrow> strptime env ds \<noteq> None \<and> float_of env (replace_comma t) \<noteq> None)
      | _ \<Rightarrow> False)"

text \<open>The (date, rate) pair that a well-formed record element stands for.\<close>

definition the_record :: "pyenv \<Rightarrow> element \<Rightarrow> rate_record" where
  "the_record env r =
     \<lparr>date = the (strptime env (the (get_attr r ''Date''))),
      rate = the (float_of env (replace_comma (the (elem_text (the (find_child ''Value'' r))))))\<rparr>"

text \<open>
  A malformed payload: not an XML document, a document without any \<^verbatim>\<open>Record\<close> child of
  the root, or a document one of whose records is not well formed.
\<close>

definition malformed :: "pyenv \<Rightarrow> element option \<Rightarrow> bool" where
  "malformed env doc =
     (case doc of
        None \<Rightarrow> True
      | Some root_el \<Rightarrow>
          findall ''Record'' root_el = [] \<or>
          (\<exists>r \<in> set (findall ''Record'' root_el). \<not> well_formed_record env r))"

text \<open>
  The document that \<^verbatim>\<open>get_currency_rate\<close> hands to its parsing phase: \<open>None\<close> when the
  date range overflows, the request raises or the status is an error, so that the parsing
  phase is not reached.
\<close>

definition served_document :: "pyenv \<Rightarrow> string \<Rightarrow> int \<Rightarrow> element option option" where
  "served_document env currency_code n =
     (case timedelta n of
        Inl e \<Rightarrow> None
      | Inr delta \<Rightarrow>
          (case datetime_sub (now env) delta of
             Inl e \<Rightarrow> None
           | Inr start_date \<Rightarrow>
               (case requests_get env (request_params env currency_code start_date) of
                  Inl e \<Rightarrow> None
                | Inr resp \<Rightarrow>
                    (case raise_for_status resp of
                       Inl e \<Rightarrow> None
                     | Inr _ \<Rightarrow> Some (document resp)))))"

text \<open>
  What pandas promises of \<^verbatim>\<open>sort_values('date')\<close> whatever the algorithm: the rows come
  back in ascending order of the date and none is lost, added or changed. Stability (rows of
  equal date keep their order) is promised for \<^verbatim>\<open>kind='mergesort'\<close> and
  \<^verbatim>\<open>kind='stable'\<close> only, and the program passes no \<^verbatim>\<open>kind\<close>.
\<close>

definition sorts_by_date :: "(rate_record list \<Rightarrow> rate_record list) \<Rightarrow> bool" where
  "sorts_by_date srt = (\<forall>rows. sorted (map date (srt rows)) \<and> mset (srt rows) = mset rows)"

definition stable_by_date :: "(rate_record list \<Rightarrow> rate_record list) \<Rightarrow> bool" where
  "stable_by_date srt =
     (\<forall>rows d. filter (\<lambda>r. date r = d) (srt rows) = filter (\<lambda>r. date r = d) rows)"


section \<open>A concrete environment\<close>

text \<open>
  Instances of the library functions, for running the model on examples. \<open>py_strptime\<close>
  reads the zero-padded form \<^verbatim>\<open>dd.mm.yyyy\<close> that the provider sends and checks the
  calendar; \<open>py_float\<close> reads plain decimal notation (sign, digits, point, digits) and rounds
  as \<^verbatim>\<open>float\<close> does. CPython accepts more spellings than these two; the general
  theorems below do not depend on the instances.
\<close>

definition is_digit :: "char \<Rightarrow> bool" where
  "is_digit c = (48 \<le> (of_char c :: nat) \<and> (of_char c :: nat) \<le> 57)"

definition digits_val :: "string \<Rightarrow> nat" where
  "digits_val s = foldl (\<lambda>n c. 10 * n + (of_char c - 48)) 0 s"

definition is_leap :: "nat \<Rightarrow> bool" where
  "is_leap y = (y mod 4 = 0 \<and> (y mod 100 \<noteq> 0 \<or> y mod 400 = 0))"

definition days_in_month :: "nat \<Rightarrow> nat \<Rightarrow> nat" where
  "days_in_month y m =
     (if m = 2 then (if is_leap y then 29 else 28)
      else if m = 4 \<or> m = 6 \<or> m = 9 \<or> m = 11 then 30 else 31)"

definition py_strptime :: "string \<Rightarrow> date option" where
  "py_strptime s =
     (if length s = 10 \<and> s ! 2 = CHR ''.'' \<and> s ! 5 = CHR ''.'' \<and>
         list_all is_digit (take 2 s @ take 2 (drop 3 s) @ drop 6 s)
      then (let d = digits_val (take 2 s); m = digits_val (take 2 (drop 3 s));
                y = digits_val (drop 6 s)
            in if 1 \<le> y \<and> 1 \<le> m \<and> m \<le> 12 \<and> 1 \<le> d \<and> d \<le> days_in_month y m
               then Some (y, m, d) else None)
      else None)"

definition py_float :: "string \<Rightarrow> rate option" where
  "py_float s =
     (let signed = (s \<noteq> [] \<and> (hd s = CHR ''-'' \<or> hd s = CHR ''+''));
          body = (if signed then tl s else s);
          ip = takeWhile is_digit body;
          rest = dropWhile is_digit body;
          fp = (if rest \<noteq> [] \<and> hd rest = CHR ''.'' then tl rest else rest)
      in if (rest = [] \<or> hd rest = CHR ''.'') \<and> list_all is_digit fp \<and> (ip \<noteq> [] \<or> fp \<noteq> [])
         then Some (binary64 ((if signed \<and> hd s = CHR ''-'' then - 1 else 1) *
                      (of_nat (digits_val ip) + of_nat (digits_val fp) / 10 ^ length fp)))
         else None)"

text \<open>\<^verbatim>\<open>strftime('%d/%m/%Y')\<close> of the date with a given ordinal.\<close>

fun walk_months :: "nat \<Rightarrow> nat list \<Rightarrow> nat \<Rightarrow> nat \<times> nat" where
  "walk_months y [] n = (12, 31)"
| "walk_months y (m # ms) n =
     (if n < days_in_month y m then (m, n + 1) else walk_months y ms (n - days_in_month y m))"

definition ord2ymd :: "int \<Rightarrow> date" where
  "ord2ymd n =
     (let n0 = nat (n - 1);
          n400 = n0 div 146097; r400 = n0 mod 146097;
          n100 = r400 div 36524; r100 = r400 mod 36524;
          n4 = r100 div 1461; r4 = r100 mod 1461;
          n1 = r4 div 365; r1 = r4 mod 365;
          y = n400 * 400 + n100 * 100 + n4 * 4 + n1 + 1
      in if n1 = 4 \<or> n100 = 4 then (y - 1, 12, 31)
         else (case walk_months y [1, 2, 3, 4, 5, 6, 7, 8, 9, 10, 11, 12] r1 of
                 (m, d) \<Rightarrow> (y, m, d)))"

definition digit_char :: "nat \<Rightarrow> char" where
  "digit_char n = ''0123456789'' ! (n mod 10)"

definition py_strftime :: "int \<Rightarrow> string" where
  "py_strftime n =
     (case ord2ymd n of
        (y, m, d) \<Rightarrow>
          [digit_char (d div 10), digit_char d, CHR ''/'', digit_char (m div 10), digit_char m,
           CHR ''/'', digit_char (y div 1000), digit_char (y div 100), digit_char (y div 10),
           digit_char y])"

text \<open>
  An environment on 3 November 2026 (ordinal 739923) whose network is a given function, with
  a stable sort in the place of \<^verbatim>\<open>sort_values\<close>.
\<close>

definition py_env :: "(params \<Rightarrow> exn + response) \<Rightarrow> pyenv" where
  "py_env net =
     \<lparr>now = 739923, strftime = py_strftime, requests_get = net, strptime = py_strptime,
      float_of = py_float, sort_by_date = sort_key date\<rparr>"

definition serves :: "element option \<Rightarrow> params \<Rightarrow> exn + response" where
  "serves doc ps = Inr \<lparr>status_code = 200, document = doc\<rparr>"

definition record_el :: "string \<Rightarrow> string \<Rightarrow> element" where
  "record_el d v =
     Element ''Record'' [(''Date'', d), (''Id'', ''R01235'')] None
       [Element ''Nominal'' [] (Some ''1'') [], Element ''Value'' [] (Some v) []]"

definition val_curs :: "element list \<Rightarrow> element" where
  "val_curs rs = Element ''ValCurs'' [(''ID'', ''R01235'')] None rs"

text \<open>Example payloads.\<close>

definition doc_missing_value :: element where
  "doc_missing_value =
     val_curs [record_el ''01.01.2024'' ''75,50'',
               Element ''Record'' [(''Date'', ''02.01.2024'')] None
                 [Element ''Nominal'' [] (Some ''1'') []]]"



definition doc_error_text :: element where
  "doc_error_text = Element ''ValCurs'' [] (Some ''Error in parameters'') []"




text \<open>A sort that meets the promise of pandas and turns rows of equal date around.\<close>

definition ties_reversed :: "rate_record list \<Rightarrow> rate_record list" where
  "ties_reversed rows = sort_key date (rev rows)"


section \<open>The parsing phase\<close>

lemma parse_record_well_formed:
  "well_formed_record env r \<Longrightarrow> parse_record env r = Inr (the_record env r)"
  by (auto simp: well_formed_record_def parse_record_def the_record_def Let_def
           split: option.splits)

lemma parse_record_ill_formed:
  "\<not> well_formed_record env r \<Longrightarrow> \<exists>e. parse_record env r = Inl e"
  by (auto simp: well_formed_record_def parse_record_def Let_def split: option.splits)


lemma parse_records_some_bad:
  "\<exists>r \<in> set rs. \<not> well_formed_record env r \<Longrightarrow> \<exists>e. parse_records env rs data = Inl e"
proof (induction rs arbitrary: data)
  case Nil
  then show ?case by simp
next
  case (Cons r rs)
  show ?case
  proof (cases "well_formed_record env r")
    case True
    with Cons.prems have "\<exists>r \<in> set rs. \<not> well_formed_record env r" by auto
    from Cons.IH [OF this] True show ?thesis by (simp add: parse_record_well_formed)
  next
    case False
    from parse_record_ill_formed [OF this] show ?thesis by auto
  qed
qed

text \<open>Once the response has arrived, the result is decided by the parsing phase alone.\<close>

lemma get_currency_rate_served:
  "served_document env code n = Some doc \<Longrightarrow>
   fst (get_currency_rate env code n) =
     Inr (case parse env doc of Inl e \<Rightarrow> None | Inr df \<Rightarrow> Some df)"
  by (auto simp: served_document_def get_currency_rate_def fetch_and_parse_def Let_def
           split: sum.splits)

lemma parse_malformed: "malformed env doc \<Longrightarrow> \<exists>e. parse env doc = Inl e"
proof (cases doc)
  case None
  then show ?thesis by (simp add: parse_def)
next
  case (Some root_el)
  assume m: "malformed env doc"
  show ?thesis
  proof (cases "\<exists>r \<in> set (findall ''Record'' root_el). \<not> well_formed_record env r")
    case True
    from parse_records_some_bad [OF this, of "[]"] Some show ?thesis
      by (auto simp: parse_def)
  next
    case False
    with m Some have e: "findall ''Record'' root_el = []" by (simp add: malformed_def)
    then show ?thesis using Some
      by (simp add: parse_def DataFrame_def sort_values_def)
  qed
qed

lemma served_example:
  "served_document (py_env (serves doc)) ''R01235'' 30 = Some doc"
  by (simp add: served_document_def timedelta_def datetime_sub_def MAXORDINAL_def py_env_def
        serves_def raise_for_status_def)

text \<open>
  C2. On a malformed payload (a body that is no XML document, a document without records,
  a record without its value field, or a record whose date or number cannot be read)
  \<^verbatim>\<open>get_currency_rate\<close> returns \<^verbatim>\<open>None\<close>; the records that did parse are not returned.
\<close>

theorem malformed_payload_fails:
  assumes "served_document env code n = Some doc" and "malformed env doc"
  shows "fst (get_currency_rate env code n) = Inr None"
  using get_currency_rate_served [OF assms(1)] parse_malformed [OF assms(2)] by auto

theorem malformed_payload_fails_witness:
  "served_document (py_env (serves (Some doc_missing_value))) ''R01235'' 30
     = Some (Some doc_missing_value) \<and>
   malformed (py_env (serves (Some doc_missing_value))) (Some doc_missing_value) \<and>
   fst (get_currency_rate (py_env (serves (Some doc_missing_value))) ''R01235'' 30) = Inr None"
proof -
  have h1: "served_document (py_env (serves (Some doc_missing_value))) ''R01235'' 30
              = Some (Some doc_missing_value)"
    by (rule served_example)
  have h2: "malformed (py_env (serves (Some doc_missing_value))) (Some doc_missing_value)"
    by (simp add: malformed_def doc_missing_value_def val_curs_def record_el_def findall_def
          well_formed_record_def find_child_def get_attr_def)
  from malformed_payload_fails [OF h1 h2] h1 h2 show ?thesis by blast
qed

lemma parse_no_records:
  "findall ''Record'' root_el = [] \<Longrightarrow> parse env (Some root_el) = Inl KeyError"
  by (simp add: parse_def DataFrame_def sort_values_def)




text \<open>
  C10. A response that is a well-formed document without any \<^verbatim>\<open>Record\<close> element makes
  \<^verbatim>\<open>get_currency_rate\<close> return \<^verbatim>\<open>None\<close>, not an empty series: the frame built from
  the empty list has no \<^verbatim>\<open>date\<close> column, \<^verbatim>\<open>sort_values\<close> raises \<^verbatim>\<open>KeyError\<close>
  inside the \<^verbatim>\<open>try\<close>, and the last thing printed is that error.
\<close>

theorem no_records_fails:
  assumes "served_document env code n = Some (Some root_el)"
    and "findall ''Record'' root_el = []"
  shows "fst (get_currency_rate env code n) = Inr None \<and>
         last (snd (get_currency_rate env code n)) = Print (FetchFailed KeyError)"
proof -
  have p: "parse env (Some root_el) = Inl KeyError"
    using assms(2) by (rule parse_no_records)
  from assms(1) obtain delta start resp where
    t: "timedelta n = Inr delta" and d: "datetime_sub (now env) delta = Inr start"
    and g: "requests_get env (request_params env code start) = Inr resp"
    and s: "raise_for_status resp = Inr ()" and doc: "document resp = Some root_el"
    by (auto simp: served_document_def split: sum.splits)
  have f: "fetch_and_parse env (request_params env code start) = Inl KeyError"
    using g s doc p by (simp add: fetch_and_parse_def)
  show ?thesis using t d f by (simp add: get_currency_rate_def Let_def)
qed

theorem no_records_fails_witness:
  "served_document (py_env (serves (Some doc_error_text))) ''R01239'' 7
     = Some (Some doc_error_text) \<and>
   findall ''Record'' doc_error_text = [] \<and>
   fst (get_currency_rate (py_env (serves (Some doc_error_text))) ''R01239'' 7) = Inr None \<and>
   last (snd (get_currency_rate (py_env (serves (Some doc_error_text))) ''R01239'' 7))
     = Print (FetchFailed KeyError)"
proof -
  have h1: "served_document (py_env (serves (Some doc_error_text))) ''R01239'' 7
              = Some (Some doc_error_text)"
    by (simp add: served_document_def timedelta_def datetime_sub_def MAXORDINAL_def py_env_def
          serves_def raise_for_status_def)
  have h2: "findall ''Record'' doc_error_text = []"
    by (simp add: findall_def doc_error_text_def)
  from no_records_fails [OF h1 h2] h1 h2 show ?thesis by blast
qed

text \<open>
  The promise of pandas does not settle the order of rows of equal date: \<open>ties_reversed\<close>
  keeps it and is not stable.
\<close>

lemma ties_reversed_sorts_by_date: "sorts_by_date ties_reversed"
  by (simp add: sorts_by_date_def ties_reversed_def)

lemma ties_reversed_not_stable: "\<not> stable_by_date ties_reversed"
proof
  assume "stable_by_date ties_reversed"
  then have "filter (\<lambda>r. date r = (2024, 1, 1))
               (ties_reversed [\<lparr>date = (2024, 1, 1), rate = 1\<rparr>, \<lparr>date = (2024, 1, 1), rate = 2\<rparr>])
             = filter (\<lambda>r. date r = (2024, 1, 1))
                 [\<lparr>date = (2024, 1, 1), rate = 1\<rparr>, \<lparr>date = (2024, 1, 1), rate = 2\<rparr>]"
    unfolding stable_by_date_def by blast
  then show False by (simp add: ties_reversed_def)
qed








section \<open>Analysis and chart\<close>

lemma mean_example: "binary64 (fadd (fadd 100 110) 90 / 3) = 100"
  by code_simp

lemma change_example: "fsub 90 100 = - 10"
  by code_simp

lemma percent_example: "map_option (\<lambda>q. fmul q 100) (fdiv (- 10) 100) = Some (- 10)"
  by code_simp

text \<open>
  C3. On the series with the rates 100, 110, 90, whatever its dates,
  \<^verbatim>\<open>analyze_currency_data\<close> prints minimum 90, maximum 110, mean 100, last 90, change
  -10 and change in percent -10; the first rate, which the change is taken from, is 100.
  The quotient -10 / 100 is not exact in binary64; its product with 100 rounds to -10.
\<close>

theorem analyze_example:
  "analyze_currency_data
     (Some (Frame [\<lparr>date = d1, rate = 100\<rparr>, \<lparr>date = d2, rate = 110\<rparr>,
                   \<lparr>date = d3, rate = 90\<rparr>])) =
     [Print AnalysisHeader,
      Print (Period (min d3 (min d2 d1)) (max d3 (max d2 d1))),
      Print (PointCount 3),
      Print (MinRate 90),
      Print (MaxRate 110),
      Print (MeanRate 100),
      Print (LastRate 90),
      Print (Change (- 10) (Some (- 10)))] \<and>
   rate (hd [\<lparr>date = d1, rate = 100\<rparr>, \<lparr>date = d2, rate = 110\<rparr>,
             \<lparr>date = d3, rate = 90\<rparr>]) = 100"
  by (simp add: analyze_currency_data_def Let_def mean_example change_example percent_example)

text \<open>
  C6. On \<^verbatim>\<open>None\<close> and on every empty frame \<^verbatim>\<open>analyze_currency_data\<close> prints that
  there is nothing to analyse and returns: no statistic is computed and the division behind
  the change in percent is not reached.
\<close>

theorem analyze_empty_is_noop:
  assumes "df = None \<or> (\<exists>d. df = Some d \<and> empty_df d)"
  shows "analyze_currency_data df = [Print NoData]"
proof -
  from assms consider "df = None" | "df = Some NoColumns" | "df = Some (Frame [])"
    by (metis empty_df.elims(2))
  then show ?thesis
    by cases (simp_all add: analyze_currency_data_def)
qed

theorem analyze_empty_is_noop_witness:
  "(Some (Frame []) = None \<or> (\<exists>d. Some (Frame []) = Some d \<and> empty_df d)) \<and>
   analyze_currency_data (Some (Frame [])) = [Print NoData]"
proof -
  have h: "Some (Frame []) = None \<or> (\<exists>d. Some (Frame []) = Some d \<and> empty_df d)"
    by simp
  from analyze_empty_is_noop [OF h] h show ?thesis by blast
qed



section \<open>The two entry points\<close>





















end
